theory Spec2Isabelle
  imports Complex_Main "HOL-Library.Log_Nat"
begin

section \<open>Python exceptions\<close>

text \<open>
  An exception is its class together with the text \<open>str(e)\<close>.  Only subclasses of
  \<open>Exception\<close> occur: everything raised inside the adapter is caught by
  \<open>except Exception\<close>.  A library class the adapter never names is \<open>OtherException\<close>.
\<close>

datatype exc_class =
    Exception | FileNotFoundError | ValueError | KeyError | IndexError | TypeError
  | AttributeError | OverflowError | ZeroDivisionError | OtherException string

datatype error = Raise exc_class string

fun exc_class_of :: "error \<Rightarrow> exc_class" where
  "exc_class_of (Raise c m) = c"

fun exc_str :: "error \<Rightarrow> string" where
  "exc_str (Raise c m) = m"

section \<open>Python floats (IEEE 754 binary64)\<close>

text \<open>
  A Python float is a binary64 value: a finite rational on the binary64 grid, an infinity
  or a NaN.  The two zeros are identified (Python compares them equal, and the adapter
  never divides by one).  Every operation computes the exact rational result and rounds
  it to the nearest binary64 value, ties to even, as the hardware does.
\<close>

datatype pyfloat = Finite rat | PosInf | NegInf | NaN

definition round_half_even :: "rat \<Rightarrow> int" where
  "round_half_even x =
     (let f = \<lfloor>x\<rfloor>; d = x - of_int f
      in if d < 1 / 2 then f else if 1 / 2 < d then f + 1 else if even f then f else f + 1)"

text \<open>\<open>floor_log2 a\<close> is the exponent \<open>e\<close> with \<open>2^e \<le> a < 2^(e+1)\<close>, for \<open>a > 0\<close>.\<close>

definition floor_log2 :: "rat \<Rightarrow> int" where
  "floor_log2 a =
     (case quotient_of a of (n, d) \<Rightarrow>
        let k = bitlen n - bitlen d in if 2 powi k \<le> a then k else k - 1)"

text \<open>
  Rounding to binary64: 53 significant bits, the exponent of the leading bit at least
  \<open>-1022\<close> (below that the grid is the subnormal one, of step \<open>2^-1074\<close>), and a
  rounded magnitude of \<open>2^1024\<close> or more is an infinity.
\<close>

definition round_double :: "rat \<Rightarrow> pyfloat" where
  "round_double q =
     (if q = 0 then Finite 0
      else let a = \<bar>q\<bar>;
               e = max (floor_log2 a) (- 1022);
               u = 2 powi (e - 52);
               r = of_int (round_half_even (a / u)) * u
           in if 2 powi 1024 \<le> r then (if 0 < q then PosInf else NegInf)
              else Finite (sgn q * r))"

text \<open>The rationals that are binary64 values.\<close>

definition is_double :: "rat \<Rightarrow> bool" where
  "is_double q = (round_double q = Finite q)"

text \<open>Python's \<open>x + y\<close> on two floats.\<close>

fun float_add :: "pyfloat \<Rightarrow> pyfloat \<Rightarrow> pyfloat" where
  "float_add NaN y = NaN"
| "float_add x NaN = NaN"
| "float_add PosInf NegInf = NaN"
| "float_add NegInf PosInf = NaN"
| "float_add PosInf y = PosInf"
| "float_add NegInf y = NegInf"
| "float_add x PosInf = PosInf"
| "float_add x NegInf = NegInf"
| "float_add (Finite a) (Finite b) = round_double (a + b)"

text \<open>Python's \<open>x / 2\<close> on a float: the integer 2 becomes the float 2.0, exactly.\<close>

fun float_div2 :: "pyfloat \<Rightarrow> pyfloat" where
  "float_div2 (Finite a) = round_double (a / 2)"
| "float_div2 x = x"

text \<open>
  Python's \<open>float(i)\<close> on an int rounds to nearest, ties to even, and raises
  OverflowError when the result would not be finite.
\<close>

definition float_of_int :: "int \<Rightarrow> error + pyfloat" where
  "float_of_int i =
     (case round_double (of_int i) of
        Finite r \<Rightarrow> Inr (Finite r)
      | _ \<Rightarrow> Inl (Raise OverflowError ''int too large to convert to float''))"

section \<open>Python values held by the metadata\<close>

text \<open>
  The metadata of a slide is JSON-like: a dict with string keys, in insertion order (an
  association list), whose values are nested dicts, lists, strings, numbers, booleans or
  None.
\<close>

datatype pyval =
    VNone | VBool bool | VInt int | VFloat pyfloat | VStr string
  | VList "pyval list" | VDict "(string \<times> pyval) list"

text \<open>
  The two parsers of the Python library that \<open>_fetch_mpp\<close> calls are parameters:
  \<open>json.loads\<close>, and \<open>float\<close> on a string (which raises ValueError on a string
  that is not a number).
\<close>

record parsers =
  json_loads :: "string \<Rightarrow> error + pyval"
  float_of_str :: "string \<Rightarrow> error + pyfloat"

text \<open>Python's \<open>float(val)\<close>.\<close>

fun py_float :: "parsers \<Rightarrow> pyval \<Rightarrow> error + pyfloat" where
  "py_float P (VFloat f) = Inr f"
| "py_float P (VInt i) = float_of_int i"
| "py_float P (VBool b) = Inr (Finite (if b then 1 else 0))"
| "py_float P (VStr s) = float_of_str P s"
| "py_float P v =
     Inl (Raise TypeError ''float() argument must be a string or a real number'')"

text \<open>\<open>str.lower\<close>, on the ASCII letters; every other character is left as it is.\<close>

definition lower_char :: "char \<Rightarrow> char" where
  "lower_char c =
     (case map_of (zip ''ABCDEFGHIJKLMNOPQRSTUVWXYZ'' ''abcdefghijklmnopqrstuvwxyz'') c of
        None \<Rightarrow> c
      | Some l \<Rightarrow> l)"

definition lower :: "string \<Rightarrow> string" where
  "lower s = map lower_char s"

section \<open>The adapter\<close>

text \<open>
  What an opened \<open>CuImage\<close> answers to the queries the adapter makes: \<open>size()\<close>,
  \<open>resolutions\<close> and \<open>metadata\<close>.
\<close>

record cuimage =
  cu_size :: "int list"
  cu_resolutions :: "(string \<times> pyval) list"
  cu_metadata :: pyval

text \<open>
  The attributes of a \<open>CuCIMWSI\<close>.  An attribute that is unset or None is \<open>None\<close>.
  \<open>'g\<close> is the type of a GeoDataFrame.
\<close>

record 'g adapter =
  slide_path :: string
  tissue_seg_path :: "string option"
  custom_mpp_keys :: "(string \<times> string) list option"
  lazy_init :: bool
  img :: "cuimage option"
  dimensions :: "(int \<times> int) option"
  width :: "int option"
  height :: "int option"
  level_count :: "pyval option"
  level_downsamples :: "pyval option"
  level_dimensions :: "pyval option"
  properties :: "pyval option"
  mpp :: "pyfloat option"
  mag :: "pyval option"
  gdf_contours :: "'g option"

section \<open>\<open>_fetch_mpp\<close>\<close>

text \<open>The nested \<open>try_parse\<close>: any exception of \<open>float(val)\<close> becomes None.\<close>

definition try_parse :: "parsers \<Rightarrow> pyval \<Rightarrow> pyfloat option" where
  "try_parse P val = (case py_float P val of Inl e \<Rightarrow> None | Inr f \<Rightarrow> Some f)"

text \<open>The key of an entry under \<open>parent_key\<close>: \<open>f"{parent_key}.{k}" if parent_key else k\<close>.\<close>

definition join_key :: "string \<Rightarrow> string \<Rightarrow> string" where
  "join_key parent_key k = (if parent_key \<noteq> [] then parent_key @ ''.'' @ k else k)"

text \<open>
  The nested \<open>flatten\<close>, which writes into the local dict \<open>flat_meta\<close>: the dict is
  threaded through, and a later entry with the same lower-cased key overwrites an earlier
  one.
\<close>

fun flatten :: "(string \<times> pyval) list \<Rightarrow> string \<Rightarrow> (string \<rightharpoonup> pyval) \<Rightarrow> (string \<rightharpoonup> pyval)" where
  "flatten [] parent_key flat_meta = flat_meta"
| "flatten ((k, VDict v) # d) parent_key flat_meta =
     flatten d parent_key (flatten v (join_key parent_key k) flat_meta)"
| "flatten ((k, v) # d) parent_key flat_meta =
     flatten d parent_key (flat_meta(lower (join_key parent_key k) \<mapsto> v))"

text \<open>\<open>flat_meta.get(key)\<close>: None for a missing key.\<close>

definition flat_get :: "(string \<rightharpoonup> pyval) \<Rightarrow> string \<Rightarrow> pyval" where
  "flat_get flat_meta key = (case flat_meta key of None \<Rightarrow> VNone | Some v \<Rightarrow> v)"

text \<open>Lines 105 to 110: the caller's keys, when the dict is given and not empty.\<close>

definition custom_lookup ::
  "parsers \<Rightarrow> (string \<rightharpoonup> pyval) \<Rightarrow> (string \<times> string) list option
     \<Rightarrow> pyfloat option \<times> pyfloat option" where
  "custom_lookup P flat_meta custom_keys =
     (case custom_keys of
        None \<Rightarrow> (None, None)
      | Some ck \<Rightarrow>
          if ck = [] then (None, None)
          else (case map_of ck ''mpp_x'' of
                  None \<Rightarrow> None
                | Some kx \<Rightarrow> try_parse P (flat_get flat_meta (lower kx)),
                case map_of ck ''mpp_y'' of
                  None \<Rightarrow> None
                | Some ky \<Rightarrow> try_parse P (flat_get flat_meta (lower ky))))"

definition fallback_keys :: "string list" where
  "fallback_keys =
     [''openslide.mpp-x'', ''openslide.mpp-y'',
      ''tiff.resolution-x'', ''tiff.resolution-y'',
      ''mpp'', ''spacing'', ''microns_per_pixel'',
      ''aperio.mpp'', ''hamamatsu.mpp'',
      ''metadata.resolutions.level[0].spacing'',
      ''metadata.resolutions.level[0].physical_size.0'']"

text \<open>
  The loop of lines 122 to 128 over the keys that remain, from the current
  \<open>(mpp_x, mpp_y)\<close>; the \<open>break\<close> returns at once.
\<close>

fun fallback_loop ::
  "parsers \<Rightarrow> (string \<rightharpoonup> pyval) \<Rightarrow> string list \<Rightarrow> pyfloat option \<times> pyfloat option
     \<Rightarrow> pyfloat option \<times> pyfloat option" where
  "fallback_loop P flat_meta [] (mpp_x, mpp_y) = (mpp_x, mpp_y)"
| "fallback_loop P flat_meta (key # keys) (mpp_x, mpp_y) =
     (let (mpp_x', mpp_y') =
            (case flat_meta key of
               None \<Rightarrow> (mpp_x, mpp_y)
             | Some v \<Rightarrow>
                 if mpp_x = None then (try_parse P v, mpp_y)
                 else if mpp_y = None then (mpp_x, try_parse P v)
                 else (mpp_x, mpp_y))
      in if mpp_x' \<noteq> None \<and> mpp_y' \<noteq> None then (mpp_x', mpp_y')
         else fallback_loop P flat_meta keys (mpp_x', mpp_y'))"

text \<open>Lines 130 to 139: mirror a single axis, then average.\<close>

definition average_mpp :: "pyfloat option \<times> pyfloat option \<Rightarrow> pyfloat option" where
  "average_mpp xy =
     (let (mpp_x, mpp_y) = xy;
          mpp_y = (if mpp_x \<noteq> None \<and> mpp_y = None then mpp_x else mpp_y);
          mpp_x = (if mpp_y \<noteq> None \<and> mpp_x = None then mpp_y else mpp_x)
      in case (mpp_x, mpp_y) of
           (Some x, Some y) \<Rightarrow> Some (float_div2 (float_add x y))
         | _ \<Rightarrow> None)"

text \<open>Lines 104 to 139, on the flattened metadata.\<close>

definition resolve_mpp ::
  "parsers \<Rightarrow> (string \<rightharpoonup> pyval) \<Rightarrow> (string \<times> string) list option \<Rightarrow> pyfloat option" where
  "resolve_mpp P flat_meta custom_keys =
     average_mpp (fallback_loop P flat_meta fallback_keys (custom_lookup P flat_meta custom_keys))"

text \<open>Lines 89 to 91: metadata that is a string is parsed as JSON.\<close>

definition load_metadata :: "parsers \<Rightarrow> pyval \<Rightarrow> error + pyval" where
  "load_metadata P metadata = (case metadata of VStr s \<Rightarrow> json_loads P s | _ \<Rightarrow> Inr metadata)"

text \<open>
  The method.  It returns its result, or the exception it raises, together with the
  adapter after the call.  \<open>self.img\<close> unset, and metadata that is no dict (so has no
  \<open>items\<close>), raise AttributeError.
\<close>

definition fetch_mpp ::
  "parsers \<Rightarrow> 'g adapter \<Rightarrow> (string \<times> string) list option
     \<Rightarrow> (error + pyfloat option) \<times> 'g adapter" where
  "fetch_mpp P self custom_keys =
     (case img self of
        None \<Rightarrow> (Inl (Raise AttributeError ''NoneType object has no attribute metadata''), self)
      | Some h \<Rightarrow>
          (case load_metadata P (cu_metadata h) of
             Inl e \<Rightarrow> (Inl e, self)
           | Inr (VDict d) \<Rightarrow>
               (Inr (resolve_mpp P (flatten d [] Map.empty) custom_keys), self)
           | Inr m \<Rightarrow> (Inl (Raise AttributeError ''object has no attribute items''), self)))"

text \<open>
  The keys that decide the calibration: the fallback keys and the caller's keys,
  lower-cased as the lookup does.
\<close>

definition relevant_keys :: "(string \<times> string) list option \<Rightarrow> string list" where
  "relevant_keys custom_keys =
     fallback_keys @
     (case custom_keys of
        None \<Rightarrow> []
      | Some ck \<Rightarrow> map (lower \<circ> snd) (filter (\<lambda>kv. fst kv = ''mpp_x'' \<or> fst kv = ''mpp_y'') ck))"

text \<open>
  No key that decides the calibration is in the flattened metadata, the keys \<open>ks\<close>
  apart.
\<close>

definition no_relevant_key_except ::
  "(string \<rightharpoonup> pyval) \<Rightarrow> (string \<times> string) list option \<Rightarrow> string list \<Rightarrow> bool" where
  "no_relevant_key_except flat_meta custom_keys ks =
     list_all (\<lambda>k. k \<in> set ks \<or> flat_meta k = None) (relevant_keys custom_keys)"

text \<open>
  The floats whose sum with themselves is finite, or that are not finite themselves:
  for these the average of \<open>v\<close> and \<open>v\<close> is \<open>v\<close>.
\<close>

definition doubles_without_overflow :: "pyfloat \<Rightarrow> bool" where
  "doubles_without_overflow v =
     (case v of Finite q \<Rightarrow> is_double q \<and> \<bar>q\<bar> < 2 powi 1023 | _ \<Rightarrow> True)"

section \<open>The libraries behind the adapter\<close>

text \<open>
  The arguments of one call of the native \<open>read_region\<close>: location, level, size and
  device.
\<close>

type_synonym decode_request = "(int \<times> int) \<times> int \<times> (int \<times> int) \<times> string"

text \<open>
  Everything the adapter calls and does not define is a parameter, and each call may
  raise: the constructor \<open>CuImage\<close> bound by the import on line 41 and the native
  \<open>read_region\<close> of cucim, \<open>cupy.asnumpy\<close>, \<open>torch.as_tensor\<close> and
  \<open>torch.from_numpy\<close>, \<open>Image.fromarray\<close>, \<open>convert\<close> and \<open>resize\<close> (with
  bilinear resampling) of PIL, whose images have a \<open>size\<close>, \<open>geopandas.read_file\<close>,
  and the two methods \<open>_fetch_magnification\<close> and
  \<open>get_best_level_and_custom_downsample\<close> inherited from the base class \<open>WSI\<close>.
  \<open>'r\<close> is what the native read returns, \<open>'n\<close> a NumPy array, \<open>'t\<close> a Torch tensor,
  \<open>'i\<close> a PIL image and \<open>'g\<close> a GeoDataFrame.
\<close>

record ('r, 'n, 't, 'i, 'g) libs =
  CuImage :: "string \<Rightarrow> error + cuimage"
  cu_read_region :: "cuimage \<Rightarrow> decode_request \<Rightarrow> error + 'r"
  cp_asnumpy :: "'r \<Rightarrow> error + 'n"
  torch_as_tensor :: "'r \<Rightarrow> string \<Rightarrow> error + 't"
  torch_from_numpy :: "'n \<Rightarrow> error + 't"
  Image_fromarray :: "'n \<Rightarrow> error + 'i"
  Image_convert :: "'i \<Rightarrow> string \<Rightarrow> error + 'i"
  Image_resize :: "'i \<Rightarrow> int \<times> int \<Rightarrow> error + 'i"
  Image_size :: "'i \<Rightarrow> int \<times> int"
  gpd_read_file :: "string \<Rightarrow> error + 'g"
  fetch_magnification :: "'g adapter \<Rightarrow> (string \<times> string) list option \<Rightarrow> error + pyval"
  get_best_level_and_custom_downsample :: "'g adapter \<Rightarrow> pyfloat \<Rightarrow> error + int \<times> pyfloat"

text \<open>Sequencing of calls that may raise: the first exception ends the sequence.\<close>

definition and_then :: "error + 'a \<Rightarrow> ('a \<Rightarrow> error + 'b) \<Rightarrow> error + 'b" where
  "and_then r f = (case r of Inl e \<Rightarrow> Inl e | Inr x \<Rightarrow> f x)"

text \<open>
  The same for statements that assign attributes: what was assigned before the
  exception stays assigned.
\<close>

definition then_do ::
  "error option \<times> 's \<Rightarrow> ('s \<Rightarrow> error option \<times> 's) \<Rightarrow> error option \<times> 's" where
  "then_do r f = (case r of (Some e, s) \<Rightarrow> (Some e, s) | (None, s) \<Rightarrow> f s)"

text \<open>Python's \<open>xs[i]\<close> on a list or tuple: a negative index counts from the end.\<close>

definition list_getitem :: "'a list \<Rightarrow> int \<Rightarrow> error + 'a" where
  "list_getitem xs i =
     (if 0 \<le> i \<and> i < int (length xs) then Inr (xs ! nat i)
      else if i < 0 \<and> - int (length xs) \<le> i then Inr (xs ! nat (int (length xs) + i))
      else Inl (Raise IndexError ''list index out of range''))"

text \<open>Python's \<open>d[k]\<close> on a dict; \<open>str\<close> of a KeyError is the \<open>repr\<close> of the key.\<close>

definition dict_getitem :: "(string \<times> 'v) list \<Rightarrow> string \<Rightarrow> error + 'v" where
  "dict_getitem d k =
     (case map_of d k of
        None \<Rightarrow> Inl (Raise KeyError ([CHR 0x27] @ k @ [CHR 0x27]))
      | Some v \<Rightarrow> Inr v)"

section \<open>\<open>_lazy_initialize\<close>\<close>

text \<open>Lines 45 to 51: open the slide and read its dimensions, pyramid and metadata.\<close>

definition read_header ::
  "('r, 'n, 't, 'i, 'g) libs \<Rightarrow> 'g adapter \<Rightarrow> error option \<times> 'g adapter" where
  "read_header L self =
     (case CuImage L (slide_path self) of
        Inl e \<Rightarrow> (Some e, self)
      | Inr h \<Rightarrow>
          let self = self\<lparr>img := Some h\<rparr> in
          (case and_then (list_getitem (cu_size h) 0) (\<lambda>w.
                and_then (list_getitem (cu_size h) 1) (\<lambda>h'. Inr (w, h'))) of
             Inl e \<Rightarrow> (Some e, self)
           | Inr wh \<Rightarrow>
               let self = self\<lparr>dimensions := Some wh\<rparr>;
                   self = self\<lparr>width := Some (fst wh), height := Some (snd wh)\<rparr>
               in (case dict_getitem (cu_resolutions h) ''level_count'' of
                     Inl e \<Rightarrow> (Some e, self)
                   | Inr lc \<Rightarrow>
                       let self = self\<lparr>level_count := Some lc\<rparr> in
                       (case dict_getitem (cu_resolutions h) ''level_downsamples'' of
                          Inl e \<Rightarrow> (Some e, self)
                        | Inr ld \<Rightarrow>
                            let self = self\<lparr>level_downsamples := Some ld\<rparr> in
                            (case dict_getitem (cu_resolutions h) ''level_dimensions'' of
                               Inl e \<Rightarrow> (Some e, self)
                             | Inr ldim \<Rightarrow>
                                 (None, self\<lparr>level_dimensions := Some ldim,
                                              properties := Some (cu_metadata h)\<rparr>))))))"

text \<open>Lines 53 to 56: the calibration, then the flag.\<close>

definition resolve_calibration ::
  "parsers \<Rightarrow> ('r, 'n, 't, 'i, 'g) libs \<Rightarrow> 'g adapter \<Rightarrow> error option \<times> 'g adapter" where
  "resolve_calibration P L self =
     then_do
       (if mpp self = None
        then (case fetch_mpp P self (custom_mpp_keys self) of
                (Inl e, self) \<Rightarrow> (Some e, self)
              | (Inr m, self) \<Rightarrow> (None, self\<lparr>mpp := m\<rparr>))
        else (None, self))
       (\<lambda>self. case fetch_magnification L self (custom_mpp_keys self) of
                  Inl e \<Rightarrow> (Some e, self)
                | Inr m \<Rightarrow> (None, self\<lparr>mag := Some m, lazy_init := True\<rparr>))"

text \<open>
  Lines 58 to 62: the tissue contours.  A FileNotFoundError of the reader is raised
  again as a FileNotFoundError that names the file; any other exception passes.
\<close>

definition load_contours ::
  "('r, 'n, 't, 'i, 'g) libs \<Rightarrow> 'g adapter \<Rightarrow> error option \<times> 'g adapter" where
  "load_contours L self =
     (case tissue_seg_path self of
        None \<Rightarrow> (None, self)
      | Some p \<Rightarrow>
          (case gpd_read_file L p of
             Inr g \<Rightarrow> (None, self\<lparr>gdf_contours := Some g\<rparr>)
           | Inl e \<Rightarrow>
               if exc_class_of e = FileNotFoundError
               then (Some (Raise FileNotFoundError
                             (''Tissue segmentation file not found: '' @ p)), self)
               else (Some e, self)))"

text \<open>The body of the outer \<open>try\<close>, lines 45 to 62.\<close>

definition try_body ::
  "parsers \<Rightarrow> ('r, 'n, 't, 'i, 'g) libs \<Rightarrow> 'g adapter \<Rightarrow> error option \<times> 'g adapter" where
  "try_body P L self =
     then_do (then_do (read_header L self) (resolve_calibration P L)) (load_contours L)"

text \<open>
  The method: \<open>None\<close> when it returns, \<open>Some e\<close> when it raises \<open>e\<close>, and the adapter
  after the call.  The handler of line 63 turns every exception of the body into a
  plain \<open>Exception\<close>.
\<close>

definition lazy_initialize ::
  "parsers \<Rightarrow> ('r, 'n, 't, 'i, 'g) libs \<Rightarrow> 'g adapter \<Rightarrow> error option \<times> 'g adapter" where
  "lazy_initialize P L self =
     (if \<not> lazy_init self
      then (case try_body P L self of
              (Some e, self) \<Rightarrow>
                (Some (Raise Exception (''Error initializing WSI: '' @ exc_str e)), self)
            | (None, self) \<Rightarrow> (None, self))
      else (None, self))"

section \<open>\<open>read_region\<close>\<close>

datatype ('n, 't, 'i) region_out = AsNumpy 'n | AsTorch 't | AsPil 'i

text \<open>Python's \<open>s in t\<close> on strings.\<close>

fun str_contains :: "string \<Rightarrow> string \<Rightarrow> bool" where
  "str_contains s [] = (s = [])"
| "str_contains s (c # t) = (take (length s) (c # t) = s \<or> str_contains s t)"

text \<open>
  The method returns, with its result, the native reads it made, in order.
  \<open>self.img\<close> unset raises AttributeError.
\<close>

definition read_region ::
  "('r, 'n, 't, 'i, 'g) libs \<Rightarrow> 'g adapter \<Rightarrow> int \<times> int \<Rightarrow> int \<Rightarrow> int \<times> int \<Rightarrow> string \<Rightarrow> string
     \<Rightarrow> decode_request list \<times> (error + ('n, 't, 'i) region_out)" where
  "read_region L self location level sz device read_as =
     (case img self of
        None \<Rightarrow>
          ([], Inl (Raise AttributeError ''NoneType object has no attribute read_region''))
      | Some h \<Rightarrow>
          (case cu_read_region L h (location, level, sz, device) of
             Inl e \<Rightarrow> ([(location, level, sz, device)], Inl e)
           | Inr region \<Rightarrow>
               ([(location, level, sz, device)],
                if read_as = ''torch'' then
                  (if str_contains ''cuda'' device
                   then and_then (torch_as_tensor L region device) (\<lambda>t. Inr (AsTorch t))
                   else and_then (cp_asnumpy L region) (\<lambda>a.
                        and_then (torch_from_numpy L a) (\<lambda>t. Inr (AsTorch t))))
                else if read_as = ''numpy'' then
                  and_then (cp_asnumpy L region) (\<lambda>a. Inr (AsNumpy a))
                else if read_as = ''pil'' then
                  and_then (cp_asnumpy L region) (\<lambda>a.
                  and_then (Image_fromarray L a) (\<lambda>im.
                  and_then (Image_convert L im ''RGB'') (\<lambda>im. Inr (AsPil im))))
                else Inl (Raise ValueError (''Unsupported read_as value: '' @ read_as)))))"

section \<open>\<open>get_thumbnail\<close>\<close>

text \<open>
  Python's \<open>a / b\<close> on two ints: the quotient rounded to the nearest float,
  ZeroDivisionError for a zero divisor, OverflowError for a quotient beyond the floats.
\<close>

definition int_truediv :: "int \<Rightarrow> int \<Rightarrow> error + pyfloat" where
  "int_truediv a b =
     (if b = 0 then Inl (Raise ZeroDivisionError ''division by zero'')
      else case round_double (of_int a / of_int b) of
             Finite r \<Rightarrow> Inr (Finite r)
           | _ \<Rightarrow> Inl (Raise OverflowError ''integer division result too large for a float''))"

text \<open>Python's \<open>x < y\<close> on two floats; a NaN compares false.\<close>

fun float_less :: "pyfloat \<Rightarrow> pyfloat \<Rightarrow> bool" where
  "float_less NaN y = False"
| "float_less x NaN = False"
| "float_less (Finite a) (Finite b) = (a < b)"
| "float_less NegInf y = (y \<noteq> NegInf)"
| "float_less x PosInf = (x \<noteq> PosInf)"
| "float_less x y = False"

text \<open>Python's \<open>max(x, y)\<close>: the second argument only when it is greater.\<close>

definition float_max :: "pyfloat \<Rightarrow> pyfloat \<Rightarrow> pyfloat" where
  "float_max x y = (if float_less x y then y else x)"

text \<open>Python's \<open>v[i]\<close> on a value of the metadata.\<close>

fun py_getitem :: "pyval \<Rightarrow> int \<Rightarrow> error + pyval" where
  "py_getitem (VList xs) i = list_getitem xs i"
| "py_getitem (VStr s) i = and_then (list_getitem s i) (\<lambda>c. Inr (VStr [c]))"
| "py_getitem (VDict d) i = Inl (Raise KeyError ''key'')"
| "py_getitem v i = Inl (Raise TypeError ''object is not subscriptable'')"

text \<open>Python's \<open>a, b = v\<close>: \<open>v\<close> is iterated and must give two items.\<close>

fun unpack2 :: "pyval \<Rightarrow> error + pyval \<times> pyval" where
  "unpack2 (VList [a, b]) = Inr (a, b)"
| "unpack2 (VStr [a, b]) = Inr (VStr [a], VStr [b])"
| "unpack2 (VDict [a, b]) = Inr (VStr (fst a), VStr (fst b))"
| "unpack2 (VList xs) = Inl (Raise ValueError ''wrong number of values to unpack'')"
| "unpack2 (VStr xs) = Inl (Raise ValueError ''wrong number of values to unpack'')"
| "unpack2 (VDict xs) = Inl (Raise ValueError ''wrong number of values to unpack'')"
| "unpack2 v = Inl (Raise TypeError ''cannot unpack non-iterable object'')"

text \<open>The native read takes integers for the size; it rejects anything else.\<close>

fun as_int :: "pyval \<Rightarrow> error + int" where
  "as_int (VInt i) = Inr i"
| "as_int (VBool b) = Inr (if b then 1 else 0)"
| "as_int v = Inl (Raise TypeError ''an integer is required'')"

text \<open>
  The method.  \<open>self.width\<close> or \<open>self.height\<close> unset or None cannot be divided, and
  \<open>self.level_dimensions\<close> unset or None cannot be indexed: TypeError.  The call of
  \<open>read_region\<close> leaves \<open>device\<close> and \<open>read_as\<close> at their defaults, \<open>'cpu'\<close> and
  \<open>'pil'\<close>.  The parameter \<open>size\<close> is \<open>sz\<close> here, as in \<open>read_region\<close>.
\<close>

definition get_thumbnail ::
  "('r, 'n, 't, 'i, 'g) libs \<Rightarrow> 'g adapter \<Rightarrow> int \<times> int \<Rightarrow> error + 'i" where
  "get_thumbnail L self sz =
     (let (target_width, target_height) = sz in
      and_then (case width self of
                  None \<Rightarrow> Inl (Raise TypeError ''unsupported operand type(s) for /'')
                | Some w \<Rightarrow> int_truediv w target_width) (\<lambda>downsample_x.
      and_then (case height self of
                  None \<Rightarrow> Inl (Raise TypeError ''unsupported operand type(s) for /'')
                | Some h \<Rightarrow> int_truediv h target_height) (\<lambda>downsample_y.
      let desired_downsample = float_max downsample_x downsample_y in
      and_then (get_best_level_and_custom_downsample L self desired_downsample) (\<lambda>(level, _).
      and_then (case level_dimensions self of
                  None \<Rightarrow> Inl (Raise TypeError ''object is not subscriptable'')
                | Some ld \<Rightarrow> py_getitem ld level) (\<lambda>dims.
      and_then (unpack2 dims) (\<lambda>(level_width, level_height).
      and_then (as_int level_width) (\<lambda>lw.
      and_then (as_int level_height) (\<lambda>lh.
      and_then (snd (read_region L self (0, 0) level (lw, lh) ''cpu'' ''pil'')) (\<lambda>out.
      and_then (case out of
                  AsPil region \<Rightarrow> Image_convert L region ''RGB''
                | _ \<Rightarrow> Inl (Raise AttributeError ''object has no attribute convert''))
               (\<lambda>region. Image_resize L region (snd sz, fst sz)))))))))))"

text \<open>
  What the PIL documentation promises of \<open>resize\<close>: the image returned has the size
  it was given, a pair (width, height).
\<close>

definition resize_contract :: "('r, 'n, 't, 'i, 'g) libs \<Rightarrow> bool" where
  "resize_contract L =
     (\<forall>im sz r. Image_resize L im sz = Inr r \<longrightarrow> Image_size L r = sz)"

section \<open>Auxiliary definitions for the proofs\<close>

text \<open>The binary64 value nearest to a positive rational, on its grid.\<close>

definition grid :: "rat \<Rightarrow> rat" where
  "grid a = (let e = max (floor_log2 a) (- 1022); u = 2 powi (e - 52)
             in of_int (round_half_even (a / u)) * u)"

section \<open>Example values\<close>

definition example_parsers :: parsers where
  "example_parsers =
     \<lparr>json_loads = (\<lambda>s. Inl (Raise ValueError ''Expecting value'')),
      float_of_str = (\<lambda>s. Inl (Raise ValueError ''could not convert string to float''))\<rparr>"

definition example_image :: cuimage where
  "example_image =
     \<lparr>cu_size = [100000, 80000],
      cu_resolutions =
        [(''level_count'', VInt 2),
         (''level_dimensions'',
            VList [VList [VInt 100000, VInt 80000], VList [VInt 25000, VInt 20000]]),
         (''level_downsamples'', VList [VFloat (Finite 1), VFloat (Finite 4)])],
      cu_metadata =
        VDict [(''openslide'',
                  VDict [(''MPP-X'', VFloat (round_double (25 / 100))),
                         (''MPP-Y'', VFloat (round_double (26 / 100)))])]\<rparr>"

definition new_adapter :: "string \<Rightarrow> string option \<Rightarrow> string adapter" where
  "new_adapter path seg =
     \<lparr>slide_path = path, tissue_seg_path = seg, custom_mpp_keys = None, lazy_init = False,
      img = None, dimensions = None, width = None, height = None, level_count = None,
      level_downsamples = None, level_dimensions = None, properties = None, mpp = None,
      mag = None, gdf_contours = None\<rparr>"

text \<open>
  Libraries for the examples: the native read returns its request, an image is its size
  and mode, the slide \<open>slide.svs\<close> and the contours \<open>contours.geojson\<close> exist and
  nothing else does.
\<close>

definition example_libs ::
  "(decode_request, decode_request, decode_request, (int \<times> int) \<times> string, string) libs" where
  "example_libs =
     \<lparr>CuImage = (\<lambda>p. if p = ''slide.svs'' then Inr example_image
                      else Inl (Raise FileNotFoundError (''No such file: '' @ p))),
      cu_read_region = (\<lambda>h req. Inr req),
      cp_asnumpy = (\<lambda>r. Inr r),
      torch_as_tensor = (\<lambda>r device. Inr r),
      torch_from_numpy = (\<lambda>a. Inr a),
      Image_fromarray = (\<lambda>a. Inr (fst (snd (snd a)), ''RGBA'')),
      Image_convert = (\<lambda>im mode. Inr (fst im, mode)),
      Image_resize = (\<lambda>im sz. Inr (sz, snd im)),
      Image_size = fst,
      gpd_read_file = (\<lambda>p. if p = ''contours.geojson'' then Inr ''contours''
                            else Inl (Raise FileNotFoundError (''No such file: '' @ p))),
      fetch_magnification = (\<lambda>self custom_keys. Inr (VInt 40)),
      get_best_level_and_custom_downsample = (\<lambda>self downsample. Inr (1, Finite 1))\<rparr>"

text \<open>The adapter after a successful initialization on \<open>slide.svs\<close>, without contours.\<close>

definition opened_adapter :: "string adapter" where
  "opened_adapter =
     \<lparr>slide_path = ''slide.svs'', tissue_seg_path = None, custom_mpp_keys = None,
      lazy_init = True, img = Some example_image, dimensions = Some (100000, 80000),
      width = Some 100000, height = Some 80000, level_count = Some (VInt 2),
      level_downsamples = Some (VList [VFloat (Finite 1), VFloat (Finite 4)]),
      level_dimensions =
        Some (VList [VList [VInt 100000, VInt 80000], VList [VInt 25000, VInt 20000]]),
      properties = Some (cu_metadata example_image),
      mpp = Some (round_double (255 / 1000)), mag = Some (VInt 40), gdf_contours = None\<rparr>"

text \<open>An adapter whose slide answers with the metadata \<open>d\<close>.\<close>

definition adapter_with_metadata :: "(string \<times> pyval) list \<Rightarrow> string adapter" where
  "adapter_with_metadata d =
     (new_adapter ''slide.svs'' None)\<lparr>img := Some (example_image\<lparr>cu_metadata := VDict d\<rparr>)\<rparr>"

text \<open>
  Metadata with a scanner key that the caller names for \<open>mpp_x\<close>, and both OpenSlide
  keys, the second with any float \<open>y\<close>.
\<close>

definition crossed_metadata :: "pyfloat \<Rightarrow> (string \<times> pyval) list" where
  "crossed_metadata y =
     [(''scanner.mpp'', VFloat (Finite (1 / 2))),
      (''openslide.mpp-x'', VFloat (Finite (1 / 4))),
      (''openslide.mpp-y'', VFloat y)]"

definition crossed_keys :: "(string \<times> string) list option" where
  "crossed_keys = Some [(''mpp_x'', ''scanner.mpp'')]"

section \<open>Facts about rounding to binary64\<close>

lemma bitlen_rat_bounds:
  assumes "0 < (n::int)"
  shows "(2::rat) powi (bitlen n - 1) \<le> of_int n" and "(of_int n :: rat) < 2 powi (bitlen n)"
proof -
  from bitlen_bounds[OF assms] have lo: "2 ^ nat (bitlen n - 1) \<le> n" and hi: "n < 2 ^ nat (bitlen n)"
    by auto
  have b1: "1 \<le> bitlen n" using assms by (auto simp: bitlen_alt_def)
  have "(of_int (2 ^ nat (bitlen n - 1)) :: rat) \<le> of_int n" using lo by (simp only: of_int_le_iff)
  then show "(2::rat) powi (bitlen n - 1) \<le> of_int n" using b1 by (simp add: power_int_def)
  have "(of_int n :: rat) < of_int (2 ^ nat (bitlen n))" using hi by (simp only: of_int_less_iff)
  then show "(of_int n :: rat) < 2 powi (bitlen n)" using b1 by (simp add: power_int_def)
qed

lemma floor_log2_bounds:
  assumes "0 < a"
  shows "2 powi (floor_log2 a) \<le> a \<and> a < 2 powi (floor_log2 a + 1)"
proof -
  obtain n d where q: "quotient_of a = (n, d)" by (cases "quotient_of a")
  have d: "0 < d" using quotient_of_denom_pos[OF q] .
  have a: "a = of_int n / of_int d" using quotient_of_div[OF q] .
  have n: "0 < n" using assms d a by (simp add: zero_less_divide_iff)
  define k where "k = bitlen n - bitlen d"
  note nb = bitlen_rat_bounds[OF n] and db = bitlen_rat_bounds[OF d]
  have dpos: "(0::rat) < of_int d" using d by simp
  have "a < 2 powi (bitlen n) / 2 powi (bitlen d - 1)"
    unfolding a using nb(2) db(1) n
    by (intro frac_less) auto
  also have "\<dots> = 2 powi (k + 1)" unfolding k_def by (simp flip: power_int_diff add: algebra_simps)
  finally have hi: "a < 2 powi (k + 1)" .
  have "(2::rat) powi (bitlen n - 1) / 2 powi (bitlen d) < a"
    unfolding a using nb(1) db(2) dpos
    by (intro frac_less2) auto
  moreover have "(2::rat) powi (bitlen n - 1) / 2 powi (bitlen d) = 2 powi (k - 1)"
    unfolding k_def by (simp flip: power_int_diff add: algebra_simps)
  ultimately have lo: "2 powi (k - 1) < a" by simp
  show ?thesis
    using lo hi by (auto simp: floor_log2_def q k_def[symmetric] Let_def not_le)
qed

lemma floor_log2_unique:
  assumes "0 < a" "2 powi e \<le> a" "a < 2 powi (e + 1)"
  shows "floor_log2 a = e"
proof -
  from floor_log2_bounds[OF assms(1)]
  have lo: "2 powi (floor_log2 a) \<le> a" and hi: "a < 2 powi (floor_log2 a + 1)" by auto
  have "(2::rat) powi (floor_log2 a) < 2 powi (e + 1)" using lo assms(3) by simp
  then have 1: "floor_log2 a < e + 1"
    by (metis not_less power_int_increasing one_le_numeral)
  have "(2::rat) powi e < 2 powi (floor_log2 a + 1)" using hi assms(2) by simp
  then have 2: "e < floor_log2 a + 1"
    by (metis not_less power_int_increasing one_le_numeral)
  from 1 2 show ?thesis by simp
qed

lemma round_half_even_near:
  assumes "\<bar>x - of_int m\<bar> < 1 / 2"
  shows "round_half_even x = m"
proof -
  have "\<lfloor>x\<rfloor> = m \<or> \<lfloor>x\<rfloor> = m - 1" using assms by (auto simp: abs_less_iff floor_eq_iff)
  then show ?thesis
    using assms by (auto simp: round_half_even_def Let_def abs_less_iff)
qed

lemma round_half_even_of_int: "round_half_even (of_int m) = m"
  by (rule round_half_even_near) simp

lemma round_double_eqI:
  assumes "0 < a" "2 powi e \<le> a" "a < 2 powi (e + 1)" "- 1022 \<le> e"
    and "\<bar>a / 2 powi (e - 52) - of_int m\<bar> < 1 / 2"
    and "of_int m * 2 powi (e - 52) < (2::rat) powi 1024"
  shows "round_double a = Finite (of_int m * 2 powi (e - 52))"
proof -
  have e: "max (floor_log2 \<bar>a\<bar>) (- 1022) = e"
    using floor_log2_unique[OF assms(1-3)] assms(1,4) by (simp add: max_def)
  have m: "round_half_even (\<bar>a\<bar> / 2 powi (e - 52)) = m"
    using round_half_even_near[OF assms(5)] assms(1) by simp
  have s: "sgn a = 1" "a \<noteq> 0" using assms(1) by auto
  show ?thesis
    unfolding round_double_def Let_def e m using assms(6) s by (simp only: not_le[symmetric] if_False mult_1)
qed

lemma round_double_grid:
  "q \<noteq> 0 \<Longrightarrow> round_double q =
     (if 2 powi 1024 \<le> grid \<bar>q\<bar> then (if 0 < q then PosInf else NegInf)
      else Finite (sgn q * grid \<bar>q\<bar>))"
  by (simp only: round_double_def grid_def Let_def if_False)

lemma grid_double:
  assumes "0 < a" "grid a = a"
  shows "grid (2 * a) = 2 * a"
proof -
  define e where "e = floor_log2 a"
  have b: "2 powi e \<le> a" "a < 2 powi (e + 1)"
    using floor_log2_bounds[OF assms(1)] by (auto simp: e_def)
  have p1: "(2::rat) powi (e + 1) = 2 * 2 powi e" by (simp add: power_int_add)
  have p2: "(2::rat) powi (e + 1 + 1) = 2 * 2 powi (e + 1)" by (simp add: power_int_add)
  have lo2: "2 powi (e + 1) \<le> 2 * a" using b(1) p1 by linarith
  have hi2: "2 * a < 2 powi (e + 1 + 1)" using b(2) p2 by linarith
  have e2: "floor_log2 (2 * a) = e + 1"
    using assms(1) by (intro floor_log2_unique[OF _ lo2 hi2]) simp
  show ?thesis
  proof (cases "- 1022 \<le> e")
    case True
    then have m: "max e (- 1022) = e" "max (e + 1) (- 1022) = e + 1" by auto
    have u: "(2::rat) powi (e - 51) = 2 * 2 powi (e - 52)"
      using power_int_add[of "2::rat" "e - 52" 1] by (simp add: algebra_simps)
    have "grid (2 * a) = 2 * grid a"
      by (simp add: grid_def Let_def e2 m u e_def[symmetric])
    then show ?thesis using assms(2) by simp
  next
    case False
    then have m: "max e (- 1022) = - 1022" "max (e + 1) (- 1022) = - 1022" by auto
    define u :: rat where "u = 2 powi (- 1022 - 52)"
    have upos: "0 < u" by (simp add: u_def)
    define k where "k = round_half_even (a / u)"
    have ga: "of_int k * u = a"
      using assms(2) by (simp add: grid_def Let_def m e_def[symmetric] u_def k_def)
    have "2 * a / u = of_int (2 * k)" using ga upos by (simp add: field_simps)
    then have "round_half_even (2 * a / u) = 2 * k" by (simp only: round_half_even_of_int)
    then have "grid (2 * a) = of_int (2 * k) * u"
      by (simp add: grid_def Let_def e2 m u_def)
    then show ?thesis using ga by simp
  qed
qed

lemma is_double_grid:
  assumes "is_double v" "v \<noteq> 0"
  shows "grid \<bar>v\<bar> = \<bar>v\<bar>"
proof -
  have "sgn v * grid \<bar>v\<bar> = v"
    using assms unfolding is_double_def by (simp add: round_double_grid split: if_splits)
  then show ?thesis using assms(2) by (cases "0 < v") (auto simp: sgn_if split: if_splits)
qed

lemma round_double_twice:
  assumes "is_double v" "\<bar>v\<bar> < 2 powi 1023"
  shows "round_double (v + v) = Finite (v + v)"
proof (cases "v = 0")
  case True
  then show ?thesis by (simp add: round_double_def)
next
  case False
  have g: "grid \<bar>2 * v\<bar> = 2 * \<bar>v\<bar>"
    using grid_double[of "\<bar>v\<bar>"] is_double_grid[OF assms(1) False] False by (simp add: abs_mult)
  have "(2::rat) powi 1024 = 2 * 2 powi 1023" using power_int_add[of "2::rat" 1023 1] by simp
  then have lt: "\<not> (2::rat) powi 1024 \<le> 2 * \<bar>v\<bar>" using assms(2) by simp
  have "round_double (2 * v) = Finite (sgn (2 * v) * (2 * \<bar>v\<bar>))"
    using False lt by (simp only: round_double_grid[of "2 * v"] g if_False)
  also have "sgn (2 * v) * (2 * \<bar>v\<bar>) = 2 * v" by (simp add: sgn_if)
  finally show ?thesis by simp
qed

lemma float_mirror_average:
  assumes "is_double v" "\<bar>v\<bar> < 2 powi 1023"
  shows "float_div2 (float_add (Finite v) (Finite v)) = Finite v"
  using round_double_twice[OF assms] assms(1) by (simp add: is_double_def)

lemma float_mirror_overflow:
  assumes "is_double v" "2 powi 1023 \<le> v"
  shows "float_div2 (float_add (Finite v) (Finite v)) = PosInf"
proof -
  have v: "0 < v" using assms(2) zero_less_power_int[of "2::rat" 1023] by linarith
  have g: "grid \<bar>2 * v\<bar> = 2 * v"
    using grid_double[of v] is_double_grid[OF assms(1)] v by simp
  have "(2::rat) powi 1024 = 2 * 2 powi 1023" using power_int_add[of "2::rat" 1023 1] by simp
  then have "(2::rat) powi 1024 \<le> 2 * v" using assms(2) by simp
  then have "round_double (2 * v) = PosInf"
    using v by (simp only: round_double_grid[of "2 * v"] g) simp
  then show ?thesis by simp
qed

lemma double_quarter: "round_double (1 / 4) = Finite (1 / 4)"
  using round_double_eqI[of "1 / 4" "- 2" 4503599627370496] by simp

lemma double_026: "round_double (13 / 50) = Finite (1170935903116329 / 4503599627370496)"
  using round_double_eqI[of "13 / 50" "- 2" 4683743612465316] by simp

lemma double_0255: "round_double (51 / 200) = Finite (2296835809958953 / 9007199254740992)"
  using round_double_eqI[of "51 / 200" "- 2" 4593671619917906] by simp

lemma double_sum: "round_double (1 / 4 + 1170935903116329 / 4503599627370496)
    = Finite (2296835809958953 / 4503599627370496)"
  using round_double_eqI[of "1 / 4 + 1170935903116329 / 4503599627370496" "- 1" 4593671619917906] by simp

lemma double_half: "round_double (2296835809958953 / 4503599627370496 / 2)
    = Finite (2296835809958953 / 9007199254740992)"
  using round_double_eqI[of "2296835809958953 / 4503599627370496 / 2" "- 2" 4593671619917906] by simp

lemma average_025_026:
  "float_div2 (float_add (round_double (1 / 4)) (round_double (13 / 50))) = round_double (51 / 200)"
  by (simp only: double_quarter double_026 double_0255 float_add.simps float_div2.simps double_sum double_half)

section \<open>Properties of \<open>_fetch_mpp\<close>\<close>

lemma lower_simps:
  "lower [] = []"
  "lower (c # cs) = lower_char c # lower cs"
  by (simp_all add: lower_def)

lemma average_mpp_both: "average_mpp (Some x, Some y) = Some (float_div2 (float_add x y))"
  by (simp add: average_mpp_def)

lemma custom_lookup_none:
  "custom_keys = None \<or> custom_keys = Some [] \<Longrightarrow> custom_lookup P fm custom_keys = (None, None)"
  by (auto simp: custom_lookup_def)

lemma try_parse_float: "try_parse P (VFloat f) = Some f"
  by (simp add: try_parse_def)

text \<open>
  Claim C4.  When the flattened metadata holds 0.25 under \<open>openslide.mpp-x\<close> and 0.26
  under \<open>openslide.mpp-y\<close>, and the caller gives no custom keys, \<open>_fetch_mpp\<close>
  returns 0.255, the average of the two axes.  The three numbers are the floats that
  Python reads from these decimal literals.
\<close>

theorem fetch_mpp_openslide_average:
  assumes "img self = Some h"
    and "load_metadata P (cu_metadata h) = Inr (VDict d)"
    and "flatten d [] Map.empty ''openslide.mpp-x'' = Some (VFloat (round_double (25 / 100)))"
    and "flatten d [] Map.empty ''openslide.mpp-y'' = Some (VFloat (round_double (26 / 100)))"
    and "custom_keys = None \<or> custom_keys = Some []"
  shows "fst (fetch_mpp P self custom_keys) = Inr (Some (round_double (255 / 1000)))"
proof -
  let ?fm = "flatten d [] Map.empty"
  have "fallback_loop P ?fm fallback_keys (None, None)
          = (Some (round_double (25 / 100)), Some (round_double (26 / 100)))"
    unfolding fallback_keys_def by (simp add: assms(3,4) try_parse_float)
  then have "resolve_mpp P ?fm custom_keys = Some (round_double (255 / 1000))"
    by (simp add: resolve_mpp_def custom_lookup_none[OF assms(5)] average_mpp_both average_025_026)
  then show ?thesis
    by (simp add: fetch_mpp_def assms(1,2))
qed

theorem fetch_mpp_openslide_average_witness:
  "fst (fetch_mpp example_parsers ((new_adapter ''slide.svs'' None)\<lparr>img := Some example_image\<rparr>) None)
     = Inr (Some (round_double (255 / 1000)))"
  using fetch_mpp_openslide_average[of "(new_adapter ''slide.svs'' None)\<lparr>img := Some example_image\<rparr>"
      example_image example_parsers
      "[(''openslide'',
                  VDict [(''MPP-X'', VFloat (round_double (25 / 100))),
                         (''MPP-Y'', VFloat (round_double (26 / 100)))])]" None]
  by (simp add: example_image_def load_metadata_def join_key_def lower_simps lower_char_def)

lemma try_parse_None [simp]: "try_parse P VNone = None"
  by (simp add: try_parse_def)

lemma fallback_loop_set:
  "x \<noteq> None \<Longrightarrow> y \<noteq> None \<Longrightarrow> fallback_loop P fm ks (x, y) = (x, y)"
  by (cases ks) (auto split: option.splits)

lemma relevant_fallback:
  assumes "no_relevant_key_except fm ck ks" "k \<in> set fallback_keys" "k \<notin> set ks"
  shows "fm k = None"
  using assms by (auto simp: no_relevant_key_except_def relevant_keys_def list_all_iff)

lemma relevant_custom:
  assumes "no_relevant_key_except fm (Some ck) ks" "map_of ck a = Some k"
    "a = ''mpp_x'' \<or> a = ''mpp_y''" "lower k \<notin> set ks"
  shows "fm (lower k) = None"
proof -
  have "(a, k) \<in> set ck" using assms(2) by (rule map_of_SomeD)
  then have "lower k \<in> set (relevant_keys (Some ck))"
    using assms(3) by (force simp: relevant_keys_def)
  then show ?thesis using assms(1,4) by (auto simp: no_relevant_key_except_def list_all_iff)
qed

lemma custom_lookup_single:
  assumes "fm ''mpp'' = Some val" "try_parse P val = Some v"
    and "no_relevant_key_except fm ck [''mpp'']"
  shows "\<exists>x y. custom_lookup P fm ck = (x, y) \<and> (x = None \<or> x = Some v) \<and> (y = None \<or> y = Some v)"
proof (cases ck)
  case None
  then show ?thesis by (simp add: custom_lookup_def)
next
  case (Some kv)
  have one: "try_parse P (flat_get fm (lower k)) = None \<or> try_parse P (flat_get fm (lower k)) = Some v"
    if "map_of kv a = Some k" "a = ''mpp_x'' \<or> a = ''mpp_y''" for a k
  proof (cases "lower k = ''mpp''")
    case True
    then show ?thesis using assms(1,2) by (simp add: flat_get_def)
  next
    case False
    then have "fm (lower k) = None"
      using relevant_custom[OF assms(3)[unfolded Some] that] by simp
    then show ?thesis by (simp add: flat_get_def)
  qed
  show ?thesis
    using one[of "''mpp_x''"] one[of "''mpp_y''"]
    by (auto simp: custom_lookup_def Some split: option.splits)
qed

lemma custom_lookup_absent:
  assumes "no_relevant_key_except fm ck []"
  shows "custom_lookup P fm ck = (None, None)"
proof (cases ck)
  case None
  then show ?thesis by (simp add: custom_lookup_def)
next
  case (Some kv)
  have one: "try_parse P (flat_get fm (lower k)) = None"
    if "map_of kv a = Some k" "a = ''mpp_x'' \<or> a = ''mpp_y''" for a k
    using relevant_custom[OF assms[unfolded Some] that] by (simp add: flat_get_def)
  show ?thesis
    using one[of "''mpp_x''"] one[of "''mpp_y''"]
    by (auto simp: custom_lookup_def Some split: option.splits)
qed

lemma fallback_absent:
  assumes "no_relevant_key_except fm ck ks"
  shows "list_all (\<lambda>k. k \<in> set ks \<or> fm k = None) fallback_keys"
  using assms by (simp add: no_relevant_key_except_def relevant_keys_def)

lemma loop_single:
  assumes "fm ''mpp'' = Some val" "try_parse P val = Some v"
    and "no_relevant_key_except fm ck [''mpp'']"
    and "x = None \<or> x = Some v" "y = None \<or> y = Some v"
  shows "average_mpp (fallback_loop P fm fallback_keys (x, y)) = Some (float_div2 (float_add v v))"
  using fallback_absent[OF assms(3)] assms(1,2,4,5)
  unfolding fallback_keys_def
  by (auto simp: average_mpp_def)

lemma loop_absent:
  assumes "no_relevant_key_except fm ck []"
  shows "fallback_loop P fm fallback_keys (None, None) = (None, None)"
  using fallback_absent[OF assms]
  unfolding fallback_keys_def by simp

lemma mirror_average:
  assumes "doubles_without_overflow v"
  shows "float_div2 (float_add v v) = v"
proof (cases v)
  case (Finite q)
  with assms have "is_double q \<and> \<bar>q\<bar> < 2 powi 1023"
    unfolding doubles_without_overflow_def by (simp only: pyfloat.case)
  then show ?thesis unfolding Finite using float_mirror_average by blast
qed simp_all

lemma fetch_mpp_resolve:
  assumes "img self = Some h" "load_metadata P (cu_metadata h) = Inr (VDict d)"
  shows "fst (fetch_mpp P self ck) = Inr (resolve_mpp P (flatten d [] Map.empty) ck)"
  using assms by (simp add: fetch_mpp_def)

text \<open>
  Claim C5, as amended.  When \<open>mpp\<close> is the only key of the flattened metadata that
  decides the calibration, and \<open>float\<close> turns its value into \<open>v\<close>, \<open>_fetch_mpp\<close>
  returns the float average of \<open>v\<close> with itself; that is \<open>v\<close> whenever \<open>v + v\<close> does
  not overflow (\<open>v\<close> is a float of magnitude below \<open>2^1023\<close>, an infinity or a NaN).
  When no key that decides the calibration is in the flattened metadata, it returns None.
\<close>

theorem fetch_mpp_single_key_or_none:
  assumes "img self = Some h" and "load_metadata P (cu_metadata h) = Inr (VDict d)"
  shows "(flatten d [] Map.empty ''mpp'' = Some val \<and> py_float P val = Inr v \<and>
          no_relevant_key_except (flatten d [] Map.empty) custom_keys [''mpp'']
          \<longrightarrow> fst (fetch_mpp P self custom_keys) = Inr (Some (float_div2 (float_add v v)))
              \<and> (doubles_without_overflow v \<longrightarrow> fst (fetch_mpp P self custom_keys) = Inr (Some v)))
       \<and> (no_relevant_key_except (flatten d [] Map.empty) custom_keys []
          \<longrightarrow> fst (fetch_mpp P self custom_keys) = Inr None)"
proof (intro conjI impI)
  let ?fm = "flatten d [] Map.empty"
  assume a: "?fm ''mpp'' = Some val \<and> py_float P val = Inr v \<and>
          no_relevant_key_except ?fm custom_keys [''mpp'']"
  then have tp: "try_parse P val = Some v" by (simp add: try_parse_def)
  from custom_lookup_single[of ?fm val P v custom_keys] a tp
  obtain x y where xy: "custom_lookup P ?fm custom_keys = (x, y)"
    "x = None \<or> x = Some v" "y = None \<or> y = Some v" by blast
  have "resolve_mpp P ?fm custom_keys = Some (float_div2 (float_add v v))"
    unfolding resolve_mpp_def xy(1) using loop_single[of ?fm val P v custom_keys x y] a tp xy(2,3)
    by blast
  then show r: "fst (fetch_mpp P self custom_keys) = Inr (Some (float_div2 (float_add v v)))"
    by (simp add: fetch_mpp_resolve[OF assms])
  assume "doubles_without_overflow v"
  then show "fst (fetch_mpp P self custom_keys) = Inr (Some v)"
    using r by (simp add: mirror_average)
next
  let ?fm = "flatten d [] Map.empty"
  assume a: "no_relevant_key_except ?fm custom_keys []"
  have "resolve_mpp P ?fm custom_keys = None"
    by (simp add: resolve_mpp_def custom_lookup_absent[OF a] loop_absent[OF a] average_mpp_def)
  then show "fst (fetch_mpp P self custom_keys) = Inr None"
    by (simp add: fetch_mpp_resolve[OF assms])
qed

lemma double_top: "is_double (2 powi 1023)"
  unfolding is_double_def
  using round_double_eqI[of "2 powi 1023" 1023 4503599627370496] by simp

lemma top_overflow: "float_div2 (float_add (Finite (2 powi 1023)) (Finite (2 powi 1023))) = PosInf"
  using float_mirror_overflow[OF double_top] by simp

lemma double_half': "is_double (1 / 2)"
  unfolding is_double_def
  using round_double_eqI[of "1 / 2" "- 1" 4503599627370496] by simp

lemma adapter_with_metadata_img:
  "img (adapter_with_metadata d) = Some (example_image\<lparr>cu_metadata := VDict d\<rparr>)"
  by (simp add: adapter_with_metadata_def new_adapter_def)

lemma load_metadata_dict:
  "load_metadata P (cu_metadata (h\<lparr>cu_metadata := VDict d\<rparr>)) = Inr (VDict d)"
  by (simp add: load_metadata_def)

text \<open>
  The amended claim at two inputs: the metadata \<open>{'MPP': 0.5}\<close>, and metadata without
  any calibration key.
\<close>

theorem fetch_mpp_single_key_or_none_witness:
  "fst (fetch_mpp example_parsers (adapter_with_metadata [(''MPP'', VFloat (Finite (1 / 2)))]) None)
     = Inr (Some (Finite (1 / 2)))
   \<and> fst (fetch_mpp example_parsers (adapter_with_metadata [(''vendor'', VStr ''acme'')]) None)
     = Inr None"
proof
  note t = fetch_mpp_single_key_or_none[OF adapter_with_metadata_img load_metadata_dict,
      of "[(''MPP'', VFloat (Finite (1 / 2)))]" "VFloat (Finite (1 / 2))" example_parsers
         "Finite (1 / 2)" None]
  have m: "flatten [(''MPP'', VFloat (Finite (1 / 2)))] [] Map.empty = [''mpp'' \<mapsto> VFloat (Finite (1 / 2))]"
    by (simp add: join_key_def lower_simps lower_char_def)
  have h: "flatten [(''MPP'', VFloat (Finite (1 / 2)))] [] Map.empty ''mpp'' = Some (VFloat (Finite (1 / 2)))
      \<and> py_float example_parsers (VFloat (Finite (1 / 2))) = Inr (Finite (1 / 2))
      \<and> no_relevant_key_except (flatten [(''MPP'', VFloat (Finite (1 / 2)))] [] Map.empty) None [''mpp'']"
    unfolding m by (simp add: no_relevant_key_except_def relevant_keys_def fallback_keys_def)
  have d: "doubles_without_overflow (Finite (1 / 2))"
    using double_half' by (simp add: doubles_without_overflow_def)
  show "fst (fetch_mpp example_parsers (adapter_with_metadata [(''MPP'', VFloat (Finite (1 / 2)))]) None)
     = Inr (Some (Finite (1 / 2)))"
    using t h d by blast
next
  note t = fetch_mpp_single_key_or_none[OF adapter_with_metadata_img load_metadata_dict,
      of "[(''vendor'', VStr ''acme'')]" _ example_parsers _ None]
  have n: "flatten [(''vendor'', VStr ''acme'')] [] Map.empty = [''vendor'' \<mapsto> VStr ''acme'']"
    by (simp add: join_key_def lower_simps lower_char_def)
  have h: "no_relevant_key_except (flatten [(''vendor'', VStr ''acme'')] [] Map.empty) None []"
    unfolding n by (simp add: no_relevant_key_except_def relevant_keys_def fallback_keys_def)
  show "fst (fetch_mpp example_parsers (adapter_with_metadata [(''vendor'', VStr ''acme'')]) None)
     = Inr None"
    using t h by blast
qed

text \<open>
  Claim C5 as it is stated fails where \<open>v + v\<close> overflows: with \<open>2^1023\<close> (a float, about
  \<open>8.99e307\<close>) as the only calibration value under \<open>mpp\<close>, the sum of the two mirrored
  axes is infinite and \<open>_fetch_mpp\<close> returns \<open>inf\<close>, not \<open>v\<close>.
\<close>

theorem fetch_mpp_single_key_counterexample:
  "is_double (2 powi 1023)
   \<and> no_relevant_key_except (flatten [(''mpp'', VFloat (Finite (2 powi 1023)))] [] Map.empty) None [''mpp'']
   \<and> fst (fetch_mpp example_parsers (adapter_with_metadata [(''mpp'', VFloat (Finite (2 powi 1023)))]) None)
       = Inr (Some PosInf)
   \<and> fst (fetch_mpp example_parsers (adapter_with_metadata [(''mpp'', VFloat (Finite (2 powi 1023)))]) None)
       \<noteq> Inr (Some (Finite (2 powi 1023)))"
proof -
  have m: "flatten [(''mpp'', VFloat (Finite (2 powi 1023)))] [] Map.empty
      = [''mpp'' \<mapsto> VFloat (Finite (2 powi 1023))]"
    by (simp add: join_key_def lower_simps lower_char_def)
  have n: "no_relevant_key_except [''mpp'' \<mapsto> VFloat (Finite (2 powi 1023))] None [''mpp'']"
    by (simp add: no_relevant_key_except_def relevant_keys_def fallback_keys_def)
  have l: "fallback_loop example_parsers [''mpp'' \<mapsto> VFloat (Finite (2 powi 1023))] fallback_keys (None, None)
      = (Some (Finite (2 powi 1023)), None)"
    unfolding fallback_keys_def by (simp add: try_parse_float del: power_int_numeral)
  have r: "fst (fetch_mpp example_parsers (adapter_with_metadata [(''mpp'', VFloat (Finite (2 powi 1023)))]) None)
       = Inr (Some PosInf)"
    unfolding adapter_with_metadata_def
    by (simp add: fetch_mpp_def load_metadata_def new_adapter_def m resolve_mpp_def custom_lookup_def l
        average_mpp_def top_overflow
        del: flatten.simps power_int_numeral float_add.simps float_div2.simps)
  show ?thesis using double_top n r by (simp add: m del: flatten.simps power_int_numeral)
qed

text \<open>
  Claim C6.  The caller's key resolves \<open>mpp_x\<close> (to 0.5) and not \<open>mpp_y\<close>, and the
  metadata holds \<open>openslide.mpp-x\<close> (0.25) and \<open>openslide.mpp-y\<close> (any float \<open>y\<close>).
  The fallback loop then assigns to \<open>mpp_y\<close> the value of \<open>openslide.mpp-x\<close>, and
  the value under \<open>openslide.mpp-y\<close> is never consulted: the outcome is the same for
  every \<open>y\<close>.
\<close>

theorem fallback_loop_crosses_axes:
  "custom_lookup P (flatten (crossed_metadata y) [] Map.empty) crossed_keys
     = (Some (Finite (1 / 2)), None)
   \<and> flatten (crossed_metadata y) [] Map.empty ''openslide.mpp-x'' = Some (VFloat (Finite (1 / 4)))
   \<and> flatten (crossed_metadata y) [] Map.empty ''openslide.mpp-y'' = Some (VFloat y)
   \<and> fallback_loop P (flatten (crossed_metadata y) [] Map.empty) fallback_keys
        (custom_lookup P (flatten (crossed_metadata y) [] Map.empty) crossed_keys)
     = (Some (Finite (1 / 2)), Some (Finite (1 / 4)))"
proof -
  have m: "flatten (crossed_metadata y) [] Map.empty
      = [''scanner.mpp'' \<mapsto> VFloat (Finite (1 / 2)),
         ''openslide.mpp-x'' \<mapsto> VFloat (Finite (1 / 4)),
         ''openslide.mpp-y'' \<mapsto> VFloat y]"
    by (simp add: crossed_metadata_def join_key_def lower_simps lower_char_def)
  have c: "custom_lookup P (flatten (crossed_metadata y) [] Map.empty) crossed_keys
     = (Some (Finite (1 / 2)), None)"
    unfolding m by (simp add: custom_lookup_def crossed_keys_def flat_get_def try_parse_float
        lower_simps lower_char_def)
  show ?thesis
    unfolding c unfolding m fallback_keys_def by (simp add: try_parse_float)
qed

text \<open>
  Claim C7.  \<open>_fetch_mpp\<close> leaves the adapter as it found it, and a second call on the
  same inputs gives the same result (value or exception) as the first.
\<close>

theorem fetch_mpp_pure:
  "snd (fetch_mpp P self custom_keys) = self
   \<and> fetch_mpp P (snd (fetch_mpp P self custom_keys)) custom_keys = fetch_mpp P self custom_keys"
proof -
  have "snd (fetch_mpp P self custom_keys) = self"
    by (simp add: fetch_mpp_def split: option.splits sum.splits pyval.splits)
  then show ?thesis by simp
qed

section \<open>Properties of \<open>_lazy_initialize\<close>\<close>

lemma fetch_mpp_state: "fetch_mpp P self ck = (r, self') \<Longrightarrow> self' = self"
  by (auto simp: fetch_mpp_def split: option.splits sum.splits pyval.splits)

lemma read_header_frame:
  assumes "read_header L self = (r, self')"
  shows "tissue_seg_path self' = tissue_seg_path self \<and> gdf_contours self' = gdf_contours self
         \<and> lazy_init self' = lazy_init self"
  using assms
  by (auto simp: read_header_def Let_def split: sum.splits)

lemma resolve_calibration_ok:
  assumes "resolve_calibration P L self = (None, self')"
  shows "lazy_init self' \<and> tissue_seg_path self' = tissue_seg_path self
         \<and> gdf_contours self' = gdf_contours self"
  using assms
  by (auto simp: resolve_calibration_def then_do_def split: if_splits sum.splits prod.splits
      dest!: fetch_mpp_state)

lemma header_and_calibration_ok:
  assumes "then_do (read_header L self) (resolve_calibration P L) = (None, self')"
  shows "lazy_init self' \<and> tissue_seg_path self' = tissue_seg_path self
         \<and> gdf_contours self' = gdf_contours self"
proof -
  obtain r s where rh: "read_header L self = (r, s)" by (cases "read_header L self")
  with assms have "r = None" and rc: "resolve_calibration P L s = (None, self')"
    by (auto simp: then_do_def split: option.splits)
  from read_header_frame[OF rh] resolve_calibration_ok[OF rc] show ?thesis by simp
qed

text \<open>
  Claim C8.  On an adapter whose \<open>lazy_init\<close> is true, \<open>_lazy_initialize\<close> returns
  without an exception and every attribute is as before.
\<close>

theorem lazy_initialize_noop:
  assumes "lazy_init self"
  shows "lazy_initialize P L self = (None, self)"
  using assms by (simp add: lazy_initialize_def)

text \<open>
  Claim C8 on the adapter already opened on \<open>slide.svs\<close>.
\<close>

theorem lazy_initialize_noop_witness:
  "lazy_init opened_adapter
   \<and> lazy_initialize example_parsers example_libs opened_adapter = (None, opened_adapter)"
proof -
  have "lazy_init opened_adapter" by (simp add: opened_adapter_def)
  then show ?thesis using lazy_initialize_noop[of opened_adapter example_parsers example_libs] by simp
qed

text \<open>
  Claim C2 against the code.  When \<open>CuImage\<close> cannot open the slide, whatever it
  raises (a FileNotFoundError too), \<open>_lazy_initialize\<close> raises a plain \<open>Exception\<close>
  that carries the text; no attribute has been assigned, so nothing was read.
\<close>

theorem lazy_initialize_open_fails:
  assumes "\<not> lazy_init self" and "CuImage L (slide_path self) = Inl e"
  shows "lazy_initialize P L self
           = (Some (Raise Exception (''Error initializing WSI: '' @ exc_str e)), self)"
  using assms by (simp add: lazy_initialize_def try_body_def read_header_def then_do_def)

text \<open>
  A slide path that does not exist: the exception that reaches the caller is of class
  \<open>Exception\<close>, not \<open>FileNotFoundError\<close>.
\<close>

theorem lazy_initialize_open_fails_witness:
  "lazy_initialize example_parsers example_libs (new_adapter ''missing.svs'' None)
     = (Some (Raise Exception ''Error initializing WSI: No such file: missing.svs''),
        new_adapter ''missing.svs'' None)
   \<and> exc_class_of (Raise Exception ''Error initializing WSI: No such file: missing.svs'')
       \<noteq> FileNotFoundError"
  using lazy_initialize_open_fails[of "new_adapter ''missing.svs'' None" example_libs
      "Raise FileNotFoundError ''No such file: missing.svs''" example_parsers]
  by (simp add: new_adapter_def example_libs_def)

text \<open>
  Claim C10.  When lines 45 to 56 complete and the read of the tissue contours raises,
  \<open>_lazy_initialize\<close> raises a plain \<open>Exception\<close>, yet the adapter is left with
  \<open>lazy_init\<close> true and \<open>gdf_contours\<close> as it was, and the next call is a no-op
  that does not read the contours again.
\<close>

theorem lazy_initialize_contour_failure:
  assumes "\<not> lazy_init self"
    and "fst (then_do (read_header L self) (resolve_calibration P L)) = None"
    and "tissue_seg_path self = Some p"
    and "gpd_read_file L p = Inl e"
  shows "fst (lazy_initialize P L self)
           = Some (Raise Exception (''Error initializing WSI: '' @
                (if exc_class_of e = FileNotFoundError
                 then ''Tissue segmentation file not found: '' @ p else exc_str e)))
         \<and> lazy_init (snd (lazy_initialize P L self))
         \<and> gdf_contours (snd (lazy_initialize P L self)) = gdf_contours self
         \<and> lazy_initialize P L (snd (lazy_initialize P L self))
             = (None, snd (lazy_initialize P L self))"
proof -
  obtain s where s: "then_do (read_header L self) (resolve_calibration P L) = (None, s)"
    using assms(2) by (cases "then_do (read_header L self) (resolve_calibration P L)") auto
  from header_and_calibration_ok[OF s]
  have f: "lazy_init s" "tissue_seg_path s = Some p" "gdf_contours s = gdf_contours self"
    using assms(3) by auto
  have "lazy_initialize P L self
          = (Some (Raise Exception (''Error initializing WSI: '' @
                (if exc_class_of e = FileNotFoundError
                 then ''Tissue segmentation file not found: '' @ p else exc_str e))), s)"
    unfolding lazy_initialize_def try_body_def s
    using assms(1,4) f(2) by (simp add: then_do_def load_contours_def)
  then show ?thesis using f by (simp add: lazy_initialize_def)
qed

text \<open>
  Claim C10 on \<open>slide.svs\<close> with a contour file that does not exist.
\<close>

theorem lazy_initialize_contour_failure_witness:
  "fst (lazy_initialize example_parsers example_libs (new_adapter ''slide.svs'' (Some ''missing.geojson'')))
     = Some (Raise Exception
         ''Error initializing WSI: Tissue segmentation file not found: missing.geojson'')
   \<and> lazy_init (snd (lazy_initialize example_parsers example_libs
         (new_adapter ''slide.svs'' (Some ''missing.geojson''))))
   \<and> gdf_contours (snd (lazy_initialize example_parsers example_libs
         (new_adapter ''slide.svs'' (Some ''missing.geojson'')))) = None
   \<and> lazy_initialize example_parsers example_libs
        (snd (lazy_initialize example_parsers example_libs
           (new_adapter ''slide.svs'' (Some ''missing.geojson''))))
      = (None, snd (lazy_initialize example_parsers example_libs
           (new_adapter ''slide.svs'' (Some ''missing.geojson''))))"
proof -
  have h: "fst (then_do (read_header example_libs (new_adapter ''slide.svs'' (Some ''missing.geojson'')))
              (resolve_calibration example_parsers example_libs)) = None"
    by (simp add: then_do_def read_header_def resolve_calibration_def new_adapter_def
        example_libs_def example_image_def list_getitem_def dict_getitem_def and_then_def
        fetch_mpp_def load_metadata_def Let_def split: prod.splits sum.splits)
  have a: "\<not> lazy_init (new_adapter ''slide.svs'' (Some ''missing.geojson''))"
    "tissue_seg_path (new_adapter ''slide.svs'' (Some ''missing.geojson'')) = Some ''missing.geojson''"
    "gdf_contours (new_adapter ''slide.svs'' (Some ''missing.geojson'')) = None"
    by (simp_all add: new_adapter_def)
  have g: "gpd_read_file example_libs ''missing.geojson''
      = Inl (Raise FileNotFoundError ''No such file: missing.geojson'')"
    by (simp add: example_libs_def)
  show ?thesis
    using lazy_initialize_contour_failure[OF a(1) h a(2) g] a(3) by simp
qed

section \<open>Properties of \<open>read_region\<close> and \<open>get_thumbnail\<close>\<close>

text \<open>
  Claim C1, as amended.  With a \<open>read_as\<close> other than \<open>torch\<close>, \<open>numpy\<close> and \<open>pil\<close>,
  \<open>read_region\<close> on an opened slide first makes the native read of the region, for
  every location, level, size and device; when that read returns, the call raises
  ValueError, and when the read raises, its exception is the one raised.  Only an
  adapter without an opened image raises (an AttributeError) before any read.
\<close>

theorem read_region_unsupported:
  assumes "read_as \<noteq> ''torch''" "read_as \<noteq> ''numpy''" "read_as \<noteq> ''pil''"
  shows "read_region L self location level sz device read_as =
           (case img self of
              None \<Rightarrow>
                ([], Inl (Raise AttributeError ''NoneType object has no attribute read_region''))
            | Some h \<Rightarrow>
                ([(location, level, sz, device)],
                 case cu_read_region L h (location, level, sz, device) of
                   Inl e \<Rightarrow> Inl e
                 | Inr region \<Rightarrow>
                     Inl (Raise ValueError (''Unsupported read_as value: '' @ read_as))))"
  using assms by (simp add: read_region_def split: option.splits sum.splits)

text \<open>
  The amended claim at \<open>read_as = 'jpeg'\<close> on the opened adapter.
\<close>

theorem read_region_unsupported_witness:
  "read_region example_libs opened_adapter (10, 20) 1 (256, 256) ''cuda:0'' ''jpeg''
     = ([((10, 20), 1, (256, 256), ''cuda:0'')],
        Inl (Raise ValueError ''Unsupported read_as value: jpeg''))"
  using read_region_unsupported[of "''jpeg''" example_libs opened_adapter "(10, 20)" 1
      "(256, 256)" "''cuda:0''"]
  by (simp add: opened_adapter_def example_libs_def)

text \<open>
  Claim C1 as it is stated fails: with \<open>read_as = 'bmp'\<close> the ValueError is raised
  after one native read of the region has been made.
\<close>

theorem read_region_unsupported_counterexample:
  "fst (read_region example_libs opened_adapter (0, 0) 0 (512, 512) ''cpu'' ''bmp'')
     = [((0, 0), 0, (512, 512), ''cpu'')]
   \<and> snd (read_region example_libs opened_adapter (0, 0) 0 (512, 512) ''cpu'' ''bmp'')
     = Inl (Raise ValueError ''Unsupported read_as value: bmp'')"
  by (simp add: read_region_def opened_adapter_def example_libs_def)

text \<open>
  Claim C9.  On the same inputs, \<open>read_region\<close> with \<open>pil\<close> makes the same native
  read as with \<open>numpy\<close>, and its image is the RGB conversion of the image built
  from the very array that \<open>numpy\<close> returns; where \<open>numpy\<close> raises, \<open>pil\<close> raises
  the same exception.
\<close>

theorem read_region_numpy_pil:
  "fst (read_region L self location level sz device ''pil'')
     = fst (read_region L self location level sz device ''numpy'')
   \<and> (\<forall>a. snd (read_region L self location level sz device ''numpy'') = Inr (AsNumpy a)
        \<longrightarrow> snd (read_region L self location level sz device ''pil'')
             = and_then (Image_fromarray L a) (\<lambda>im.
               and_then (Image_convert L im ''RGB'') (\<lambda>im. Inr (AsPil im))))
   \<and> (\<forall>e. snd (read_region L self location level sz device ''numpy'') = Inl e
        \<longrightarrow> snd (read_region L self location level sz device ''pil'') = Inl e)"
  by (auto simp: read_region_def and_then_def split: option.splits sum.splits)

text \<open>
  Claim C9 on the opened adapter.
\<close>

theorem read_region_numpy_pil_witness:
  "snd (read_region example_libs opened_adapter (0, 0) 0 (512, 512) ''cpu'' ''numpy'')
     = Inr (AsNumpy ((0, 0), 0, (512, 512), ''cpu''))
   \<and> snd (read_region example_libs opened_adapter (0, 0) 0 (512, 512) ''cpu'' ''pil'')
     = Inr (AsPil ((512, 512), ''RGB''))"
proof -
  have n: "snd (read_region example_libs opened_adapter (0, 0) 0 (512, 512) ''cpu'' ''numpy'')
     = Inr (AsNumpy ((0, 0), 0, (512, 512), ''cpu''))"
    by (simp add: read_region_def opened_adapter_def example_libs_def and_then_def)
  from read_region_numpy_pil[of example_libs opened_adapter "(0, 0)" 0 "(512, 512)" "''cpu''"] n
  have "snd (read_region example_libs opened_adapter (0, 0) 0 (512, 512) ''cpu'' ''pil'')
     = and_then (Image_fromarray example_libs ((0, 0), 0, (512, 512), ''cpu'')) (\<lambda>im.
               and_then (Image_convert example_libs im ''RGB'') (\<lambda>im. Inr (AsPil im)))"
    by blast
  then show ?thesis using n by (simp add: example_libs_def and_then_def)
qed

lemma double_500: "round_double 500 = Finite 500"
  using round_double_eqI[of 500 8 8796093022208000] by simp

lemma double_800: "round_double 800 = Finite 800"
  using round_double_eqI[of 800 9 7036874417766400] by simp

text \<open>
  Claim C3 against the code.  With a \<open>resize\<close> that returns the size it is given, as
  PIL's does, the thumbnail that \<open>get_thumbnail\<close> returns for the requested
  \<open>(width, height)\<close> has the size \<open>(height, width)\<close>: line 172 passes
  \<open>(size[1], size[0])\<close> to \<open>resize\<close>.
\<close>

theorem get_thumbnail_size_swapped:
  assumes "resize_contract L" and "get_thumbnail L self sz = Inr r"
  shows "Image_size L r = (snd sz, fst sz)"
proof -
  from assms(2) obtain region where "Image_resize L region (snd sz, fst sz) = Inr r"
    by (auto simp: get_thumbnail_def and_then_def Let_def split: prod.splits sum.splits)
  with assms(1) show ?thesis unfolding resize_contract_def by blast
qed

text \<open>
  A thumbnail requested as 200 wide and 100 high comes back 100 wide and 200 high.
\<close>

theorem get_thumbnail_size_swapped_witness:
  "get_thumbnail example_libs opened_adapter (200, 100) = Inr ((100, 200), ''RGB'')
   \<and> Image_size example_libs ((100, 200), ''RGB'') = (100, 200)
   \<and> Image_size example_libs ((100, 200), ''RGB'') \<noteq> (200, 100)"
proof -
  have c: "resize_contract example_libs"
    by (auto simp: resize_contract_def example_libs_def)
  have g: "get_thumbnail example_libs opened_adapter (200, 100) = Inr ((100, 200), ''RGB'')"
    by (simp add: get_thumbnail_def opened_adapter_def example_libs_def and_then_def
        int_truediv_def double_500 double_800 float_max_def read_region_def list_getitem_def)
  from get_thumbnail_size_swapped[OF c g] show ?thesis using g by simp
qed

end
